theory Spec2Isabelle
  imports Main
begin

section \<open>The polling engine (usePolling)\<close>

text \<open>
  A value that a rejected promise carries. \<open>usePolling\<close> only asks whether it is an
  instance of \<open>Error\<close>; the request gateway throws \<open>ApiError\<close> (a subclass of
  \<open>Error\<close> with a status), and the platform throws \<open>TypeError\<close> and \<open>SyntaxError\<close>.
  \<open>NotAnError\<close> stands for any thrown value that is not an \<open>Error\<close> instance.
\<close>

datatype thrown =
    ApiError int string
  | TypeError string
  | SyntaxError string
  | Error string
  | NotAnError

fun instanceof_Error :: "thrown \<Rightarrow> bool" where
  "instanceof_Error NotAnError = False"
| "instanceof_Error _ = True"

text \<open>The five \<open>useState\<close> cells of the hook, with their initial values.\<close>

record 'a poll_state =
  data :: "'a option"
  error :: "thrown option"
  isLoading :: bool
  isRefreshing :: bool
  lastUpdated :: "nat option"

definition poll_initial :: "'a poll_state" where
  "poll_initial =
     \<lparr>data = None, error = None, isLoading = True, isRefreshing = False, lastUpdated = None\<rparr>"

text \<open>
  \<open>fetchData\<close> is an async function with one \<open>await\<close>. It runs in two pieces: the
  part before \<open>await fetchFn()\<close>, and the part after the promise settles (the rest of
  the \<open>try\<close> block or the \<open>catch\<close> block, then \<open>finally\<close>). \<open>now\<close> is the value of
  \<open>new Date()\<close> at the completion.
\<close>

definition fetchData_begin :: "bool \<Rightarrow> 'a poll_state \<Rightarrow> 'a poll_state" where
  "fetchData_begin isInitial s =
     (if isInitial then s\<lparr>isLoading := True\<rparr> else s\<lparr>isRefreshing := True\<rparr>)"

definition fetchData_resolved :: "'a \<Rightarrow> nat \<Rightarrow> 'a poll_state \<Rightarrow> 'a poll_state" where
  "fetchData_resolved result now s =
     s\<lparr>data := Some result, error := None, lastUpdated := Some now,
       isLoading := False, isRefreshing := False\<rparr>"

definition fetchData_rejected :: "thrown \<Rightarrow> 'a poll_state \<Rightarrow> 'a poll_state" where
  "fetchData_rejected err s =
     s\<lparr>error := Some (if instanceof_Error err then err else Error ''Failed to fetch''),
       isLoading := False, isRefreshing := False\<rparr>"

text \<open>
  One whole execution of \<open>fetchData\<close> with nothing interleaved: the outcome of
  \<open>fetchFn\<close> is \<open>Inr result\<close> or \<open>Inl err\<close>.
\<close>

definition fetchData :: "bool \<Rightarrow> thrown + 'a \<Rightarrow> nat \<Rightarrow> 'a poll_state \<Rightarrow> 'a poll_state" where
  "fetchData isInitial outcome now s =
     (case outcome of
        Inr result \<Rightarrow> fetchData_resolved result now (fetchData_begin isInitial s)
      | Inl err \<Rightarrow> fetchData_rejected err (fetchData_begin isInitial s))"

subsection \<open>Overlapping fetches\<close>

text \<open>
  The hook starts a fetch from three places: the initial effect (\<open>fetchData(true)\<close>),
  the interval timer and \<open>refresh\<close> (both \<open>fetchData(false)\<close>). Nothing waits for the
  fetch before: several promises can be pending at once. The source keeps no counter of
  its own; the number that names a pending promise below is its position in the order
  of issue, kept by the model of the event loop. \<open>Resolved k r now\<close> and
  \<open>Rejected k err\<close> are the completions of the k-th fetch issued.
\<close>

datatype 'a fetch_event =
    Start bool
  | Resolved nat 'a nat
  | Rejected nat thrown

record 'a scheduler =
  poll :: "'a poll_state"
  issued :: nat
  pending :: "nat list"

definition scheduler_initial :: "'a scheduler" where
  "scheduler_initial = \<lparr>poll = poll_initial, issued = 0, pending = []\<rparr>"

definition start_fetch :: "bool \<Rightarrow> 'a scheduler \<Rightarrow> 'a scheduler" where
  "start_fetch isInitial \<sigma> =
     \<sigma>\<lparr>poll := fetchData_begin isInitial (poll \<sigma>),
       issued := Suc (issued \<sigma>),
       pending := pending \<sigma> @ [Suc (issued \<sigma>)]\<rparr>"

text \<open>A completion can only be delivered for a promise that is pending.\<close>

fun step :: "'a fetch_event \<Rightarrow> 'a scheduler \<Rightarrow> 'a scheduler option" where
  "step (Start isInitial) \<sigma> = Some (start_fetch isInitial \<sigma>)"
| "step (Resolved k result now) \<sigma> =
     (if k \<in> set (pending \<sigma>)
      then Some (\<sigma>\<lparr>poll := fetchData_resolved result now (poll \<sigma>),
                   pending := removeAll k (pending \<sigma>)\<rparr>)
      else None)"
| "step (Rejected k err) \<sigma> =
     (if k \<in> set (pending \<sigma>)
      then Some (\<sigma>\<lparr>poll := fetchData_rejected err (poll \<sigma>),
                   pending := removeAll k (pending \<sigma>)\<rparr>)
      else None)"

fun run :: "'a fetch_event list \<Rightarrow> 'a scheduler \<Rightarrow> 'a scheduler option" where
  "run [] \<sigma> = Some \<sigma>"
| "run (e # es) \<sigma> = (case step e \<sigma> of None \<Rightarrow> None | Some \<sigma>' \<Rightarrow> run es \<sigma>')"

text \<open>
  What the specification asks the displayed snapshot to be: of the fetches that have
  completed with a result, the result of the one issued last (highest number).
\<close>

fun resolved_fetches :: "'a fetch_event list \<Rightarrow> (nat \<times> 'a) list" where
  "resolved_fetches [] = []"
| "resolved_fetches (Resolved k result now # es) = (k, result) # resolved_fetches es"
| "resolved_fetches (_ # es) = resolved_fetches es"

fun highest_issued :: "(nat \<times> 'a) list \<Rightarrow> (nat \<times> 'a) option" where
  "highest_issued [] = None"
| "highest_issued (p # ps) =
     (case highest_issued ps of
        None \<Rightarrow> Some p
      | Some q \<Rightarrow> if fst p < fst q then Some q else Some p)"

definition spec_displayed :: "'a fetch_event list \<Rightarrow> 'a option" where
  "spec_displayed es = map_option snd (highest_issued (resolved_fetches es))"

text \<open>What the source displays: the result of the completion delivered last.\<close>

fun last_resolved :: "'a fetch_event list \<Rightarrow> 'a option" where
  "last_resolved [] = None"
| "last_resolved (e # es) =
     (case last_resolved es of
        Some r \<Rightarrow> Some r
      | None \<Rightarrow> (case e of Resolved k result now \<Rightarrow> Some result | _ \<Rightarrow> None))"

section \<open>Values of the platform\<close>

text \<open>
  Parsed JSON, as \<open>response.json()\<close> yields it. Numbers are the integers (a fractional
  number has no model here); an object is its list of members in the order of the text,
  where the last of several members with one key is the one \<open>JSON.parse\<close> keeps.
\<close>

datatype json =
    JNull
  | JBool bool
  | JNum int
  | JStr string
  | JArr "json list"
  | JObj "(string \<times> json) list"

text \<open>Decimal digits of a number, as \<open>String(n)\<close> prints an integer below \<open>10^21\<close>.\<close>

fun digits :: "nat \<Rightarrow> string" where
  "digits n =
     (if n < 10 then [''0123456789'' ! n]
      else digits (n div 10) @ [''0123456789'' ! (n mod 10)])"

declare digits.simps [simp del]

definition String_int :: "int \<Rightarrow> string" where
  "String_int n = (if n < 0 then CHR ''-'' # digits (nat (- n)) else digits (nat n))"

definition String_bool :: "bool \<Rightarrow> string" where
  "String_bool b = (if b then ''true'' else ''false'')"

fun join_comma :: "string list \<Rightarrow> string" where
  "join_comma [] = []"
| "join_comma [s] = s"
| "join_comma (s # t # ts) = s @ '','' @ join_comma (t # ts)"

text \<open>The results of a list of conversions, or the first value thrown among them.\<close>

fun first_thrown :: "(thrown + 'a) list \<Rightarrow> thrown + 'a list" where
  "first_thrown [] = Inr []"
| "first_thrown (x # xs) =
     (case x of
        Inl e \<Rightarrow> Inl e
      | Inr v \<Rightarrow> (case first_thrown xs of Inl e \<Rightarrow> Inl e | Inr vs \<Rightarrow> Inr (v # vs)))"

text \<open>
  \<open>String(v)\<close>, the conversion that the \<open>Error\<close> constructor and a template literal
  apply. An array prints its elements, converted from left to right, joined by commas,
  with \<open>null\<close> elements empty. A parsed object has no callable member: one with a
  member named \<open>toString\<close> of its own hides \<open>Object.prototype.toString\<close>, no method
  gives a primitive and the conversion throws a \<open>TypeError\<close>; any other object
  prints as \<open>[object Object]\<close>.
\<close>

fun js_String :: "json \<Rightarrow> thrown + string" where
  "js_String JNull = Inr ''null''"
| "js_String (JBool b) = Inr (String_bool b)"
| "js_String (JNum n) = Inr (String_int n)"
| "js_String (JStr s) = Inr s"
| "js_String (JArr xs) =
     (case first_thrown (map (\<lambda>x. if x = JNull then Inr [] else js_String x) xs) of
        Inl e \<Rightarrow> Inl e
      | Inr parts \<Rightarrow> Inr (join_comma parts))"
| "js_String (JObj kvs) =
     (if ''toString'' \<in> fst ` set kvs
      then Inl (TypeError ''Cannot convert object to primitive value'')
      else Inr ''[object Object]'')"

text \<open>The conversion to boolean of \<open>||\<close>, \<open>&&\<close>, \<open>?:\<close> and \<open>if\<close>.\<close>

fun truthy :: "json \<Rightarrow> bool" where
  "truthy JNull = False"
| "truthy (JBool b) = b"
| "truthy (JNum n) = (n \<noteq> 0)"
| "truthy (JStr s) = (s \<noteq> [])"
| "truthy (JArr xs) = True"
| "truthy (JObj kvs) = True"

text \<open>
  \<open>v.key\<close> for a key that is no built-in property (as \<open>detail\<close> and \<open>deleted_count\<close>):
  reading a property of \<open>null\<close> throws a \<open>TypeError\<close>, an object gives its member or
  \<open>undefined\<close> (\<open>None\<close>), every other value gives \<open>undefined\<close>.
\<close>

fun get_property :: "json \<Rightarrow> string \<Rightarrow> thrown + json option" where
  "get_property JNull key = Inl (TypeError ''Cannot read properties of null'')"
| "get_property (JObj kvs) key = Inr (map_of (rev kvs) key)"
| "get_property _ key = Inr None"

text \<open>
  A number as the client code holds one for a page: an integer or \<open>NaN\<close> (what
  \<open>parseInt\<close> returns on a string without digits).
\<close>

datatype jsnum = NaN | Num int

fun num_truthy :: "jsnum \<Rightarrow> bool" where
  "num_truthy NaN = False"
| "num_truthy (Num n) = (n \<noteq> 0)"

fun String_num :: "jsnum \<Rightarrow> string" where
  "String_num NaN = ''NaN''"
| "String_num (Num n) = String_int n"

subsection \<open>URLSearchParams\<close>

text \<open>
  The ordered list of name-value pairs. \<open>set\<close> overwrites the first pair of the name
  and deletes the others, or appends; \<open>get\<close> reads the first pair of the name;
  \<open>toString\<close> joins \<open>name=value\<close> with \<open>&\<close>. Percent-encoding is left out: the names
  and values that this client writes are digits, a minus sign, \<open>true\<close> and \<open>false\<close>,
  which the encoding leaves as they are.
\<close>

type_synonym URLSearchParams = "(string \<times> string) list"

fun sp_overwrite :: "string \<Rightarrow> string \<Rightarrow> URLSearchParams \<Rightarrow> URLSearchParams" where
  "sp_overwrite name v [] = []"
| "sp_overwrite name v (p # ps) =
     (if fst p = name then (name, v) # filter (\<lambda>q. fst q \<noteq> name) ps
      else p # sp_overwrite name v ps)"

definition sp_set :: "string \<Rightarrow> string \<Rightarrow> URLSearchParams \<Rightarrow> URLSearchParams" where
  "sp_set name v ps =
     (if name \<in> fst ` set ps then sp_overwrite name v ps else ps @ [(name, v)])"

definition sp_get :: "URLSearchParams \<Rightarrow> string \<Rightarrow> string option" where
  "sp_get ps name = map_of ps name"

fun sp_toString :: "URLSearchParams \<Rightarrow> string" where
  "sp_toString [] = []"
| "sp_toString [(k, v)] = k @ ''='' @ v"
| "sp_toString ((k, v) # p # ps) = k @ ''='' @ v @ ''&'' @ sp_toString (p # ps)"

subsection \<open>A page of a list\<close>

text \<open>
  The shape of a paginated response (\<open>PaginatedSignals\<close>, \<open>PaginatedTrades\<close>), with
  the fields that the pages read and that the fallback literal of the trades page has.
\<close>

record 'a paginated =
  items :: "'a list"
  total :: int
  page :: int
  page_size :: int
  pages :: int

section \<open>The request gateway (lib/api.ts)\<close>

text \<open>
  What \<open>fetch\<close> resolves to: the status and what \<open>response.json()\<close> settles to (the
  parsed body, or the value it rejects with when the body is no JSON). \<open>response.ok\<close> is
  true for the statuses 200 to 299.
\<close>

record response =
  resp_status :: int
  resp_json :: "thrown + json"

definition ok :: "response \<Rightarrow> bool" where
  "ok r = (200 \<le> resp_status r \<and> resp_status r \<le> 299)"

text \<open>
  \<open>request\<close>, given how the \<open>fetch\<close> call settles: \<open>Inl\<close> is the value \<open>fetch\<close>
  rejects with (no response arrived), \<open>Inr\<close> the response. The result is \<open>Inl\<close> of
  the value \<open>request\<close> throws, or \<open>Inr\<close> of the parsed body it returns.
  \<open>detail_message\<close> is the second argument of \<open>new ApiError\<close>,
  \<open>error.detail || "Request failed"\<close>, as the \<open>Error\<close> constructor converts it to the
  message; the conversion can throw.
\<close>

definition detail_message :: "json option \<Rightarrow> thrown + string" where
  "detail_message detail =
     (case detail of
        None \<Rightarrow> Inr ''Request failed''
      | Some d \<Rightarrow> if truthy d then js_String d else Inr ''Request failed'')"

definition request :: "thrown + response \<Rightarrow> thrown + json" where
  "request fetched =
     (case fetched of
        Inl e \<Rightarrow> Inl e
      | Inr r \<Rightarrow>
          if \<not> ok r then
            (let error = (case resp_json r of
                            Inl e \<Rightarrow> JObj [(''detail'', JStr ''Unknown error'')]
                          | Inr v \<Rightarrow> v)
             in case get_property error ''detail'' of
                  Inl e \<Rightarrow> Inl e
                | Inr detail \<Rightarrow>
                    (case detail_message detail of
                       Inl e \<Rightarrow> Inl e
                     | Inr message \<Rightarrow> Inl (ApiError (resp_status r) message)))
          else resp_json r)"

text \<open>The status that a thrown value carries: only an \<open>ApiError\<close> has one.\<close>

fun status_of :: "thrown \<Rightarrow> int option" where
  "status_of (ApiError st msg) = Some st"
| "status_of _ = None"

subsection \<open>signalsApi.list\<close>

record list_params =
  page :: "jsnum option"
  page_size :: "jsnum option"
  processed :: "bool option"

text \<open>
  \<open>params?.page\<close> is \<open>undefined\<close> when \<open>params\<close> is. The three \<open>if\<close>s of the source,
  in its order, on a fresh \<open>URLSearchParams\<close>.
\<close>

definition list_searchParams :: "list_params option \<Rightarrow> URLSearchParams" where
  "list_searchParams params =
     (let sp0 = [];
          sp1 = (case Option.bind params page of
                   Some p \<Rightarrow> if num_truthy p then sp_set ''page'' (String_num p) sp0 else sp0
                 | None \<Rightarrow> sp0);
          sp2 = (case Option.bind params page_size of
                   Some p \<Rightarrow> if num_truthy p then sp_set ''page_size'' (String_num p) sp1 else sp1
                 | None \<Rightarrow> sp1);
          sp3 = (case Option.bind params processed of
                   Some b \<Rightarrow> sp_set ''processed'' (String_bool b) sp2
                 | None \<Rightarrow> sp2)
      in sp3)"

text \<open>The endpoint that \<open>signalsApi.list\<close> passes to \<open>request\<close>.\<close>

definition signalsApi_list :: "list_params option \<Rightarrow> string" where
  "signalsApi_list params =
     (let query = sp_toString (list_searchParams params)
      in ''/api/signals'' @ (if query \<noteq> [] then ''?'' @ query else []))"

section \<open>The signals page (SignalsClient)\<close>

subsection \<open>Filter and page from the URL\<close>

text \<open>
  Between \<open>router.push(url)\<close> and the next render the router parses the query of the
  pushed URL; \<open>useSearchParams\<close> returns the result. For a URL without percent-escapes:
  the text after the first \<open>?\<close>, cut at each \<open>&\<close>, each piece cut at its first \<open>=\<close>.
\<close>

fun split_on :: "char \<Rightarrow> string \<Rightarrow> string list" where
  "split_on c [] = [[]]"
| "split_on c (x # xs) =
     (if x = c then [] # split_on c xs
      else (case split_on c xs of [] \<Rightarrow> [[x]] | s # ss \<Rightarrow> (x # s) # ss))"

definition query_of_url :: "string \<Rightarrow> string" where
  "query_of_url url = drop 1 (dropWhile (\<lambda>c. c \<noteq> CHR ''?'') url)"

definition parse_pair :: "string \<Rightarrow> string \<times> string" where
  "parse_pair s =
     (takeWhile (\<lambda>c. c \<noteq> CHR ''='') s, drop 1 (dropWhile (\<lambda>c. c \<noteq> CHR ''='') s))"

definition useSearchParams :: "string \<Rightarrow> URLSearchParams" where
  "useSearchParams url =
     map parse_pair (filter (\<lambda>s. s \<noteq> []) (split_on (CHR ''&'') (query_of_url url)))"

text \<open>
  Parameters that \<open>toString\<close> writes without escapes and the parse reads back as they
  are: no empty name, no \<open>&\<close> and no \<open>=\<close> in a name, no \<open>&\<close> in a value.
\<close>

definition plain :: "URLSearchParams \<Rightarrow> bool" where
  "plain ps = list_all (\<lambda>(k, v). k \<noteq> [] \<and> CHR ''&'' \<notin> set k \<and> CHR ''='' \<notin> set k
                            \<and> CHR ''&'' \<notin> set v) ps"

text \<open>
  \<open>page\<close> and \<open>processed\<close> as the component derives them at each render.
  \<open>parseInt\<close> is the platform's and is a parameter here; an empty string is falsy.
\<close>

definition view_page :: "(string \<Rightarrow> jsnum) \<Rightarrow> URLSearchParams \<Rightarrow> jsnum" where
  "view_page parseInt searchParams =
     (case sp_get searchParams ''page'' of
        None \<Rightarrow> Num 1
      | Some s \<Rightarrow> if s \<noteq> [] then parseInt s else Num 1)"

definition view_processed :: "URLSearchParams \<Rightarrow> bool option" where
  "view_processed searchParams =
     (case sp_get searchParams ''processed'' of
        None \<Rightarrow> None
      | Some processedParam \<Rightarrow>
          if processedParam = ''true'' then Some True
          else if processedParam = ''false'' then Some False
          else None)"

text \<open>The endpoint that \<open>fetchSignals\<close> requests at a render with these parameters.\<close>

definition fetchSignals :: "(string \<Rightarrow> jsnum) \<Rightarrow> URLSearchParams \<Rightarrow> string" where
  "fetchSignals parseInt searchParams =
     signalsApi_list
       (Some \<lparr>page = Some (view_page parseInt searchParams),
              page_size = Some (Num 20),
              processed = view_processed searchParams\<rparr>)"

text \<open>The URL that \<open>setFilter\<close> pushes; \<open>None\<close> is \<open>undefined\<close> (the button All).\<close>

definition setFilter :: "string option \<Rightarrow> string" where
  "setFilter v =
     (let params = (case v of None \<Rightarrow> [] | Some x \<Rightarrow> sp_set ''processed'' x [])
      in ''/signals'' @ (if sp_toString params \<noteq> [] then ''?'' @ sp_toString params else []))"

text \<open>
  The URL that the handlers of Previous and Next push, for the target page
  (\<open>signals.page - 1\<close> or \<open>signals.page + 1\<close>) and the filter of the render.
\<close>

definition push_page :: "int \<Rightarrow> bool option \<Rightarrow> string" where
  "push_page target filter_now =
     (let params = sp_set ''page'' (String_int target) [];
          params = (case filter_now of
                      None \<Rightarrow> params
                    | Some b \<Rightarrow> sp_set ''processed'' (String_bool b) params)
      in ''/signals?'' @ sp_toString params)"

datatype nav = Previous | Next

fun nav_click :: "nav \<Rightarrow> 'a paginated \<Rightarrow> bool option \<Rightarrow> string" where
  "nav_click Previous signals filter_now = push_page (paginated.page signals - 1) filter_now"
| "nav_click Next signals filter_now = push_page (paginated.page signals + 1) filter_now"

subsection \<open>Rows and their buttons\<close>

text \<open>
  The fields of a signal that the action column reads: \<open>id\<close> (optional in the type)
  and \<open>status\<close>.
\<close>

record signal =
  signal_id :: "int option"
  status :: "string option"

datatype verb = Confirm | Reject | Delete

text \<open>
  \<open>signal.id && ...\<close>: an absent id and the id 0 are falsy. Each button comes with its
  \<open>disabled\<close> attribute, \<open>actionLoading === signal.id\<close>.
\<close>

definition id_truthy :: "signal \<Rightarrow> bool" where
  "id_truthy s = (case signal_id s of None \<Rightarrow> False | Some i \<Rightarrow> i \<noteq> 0)"

definition row_buttons :: "int option \<Rightarrow> signal \<Rightarrow> (verb \<times> bool) list" where
  "row_buttons actionLoading_now s =
     (let disabled = (signal_id s \<noteq> None \<and> actionLoading_now = signal_id s)
      in (if status s = Some ''pending_confirmation'' \<and> id_truthy s
          then [(Confirm, disabled), (Reject, disabled)] else [])
       @ (if id_truthy s then [(Delete, disabled)] else []))"

subsection \<open>The component with its calls in flight\<close>

datatype action = Single verb int | Bulk bool

text \<open>
  \<open>sched\<close> is the \<open>usePolling\<close> instance of the component and \<open>actionLoading\<close> its
  one \<open>useState\<close> cell for actions. The other fields record what the component has done
  to the outside: the calls awaiting their response, the (method, endpoint) of every
  call made by an action, and the texts passed to \<open>confirm\<close>, \<open>alert\<close> and
  \<open>console.error\<close>.
\<close>

record world =
  sched :: "signal paginated scheduler"
  actionLoading :: "int option"
  in_flight :: "action list"
  requests :: "(string \<times> string) list"
  dialogs :: "string list"
  alerts :: "string list"
  console :: "string list"

definition rows_shown :: "world \<Rightarrow> signal list" where
  "rows_shown w =
     (if isLoading (poll (sched w)) then []
      else (case data (poll (sched w)) of None \<Rightarrow> [] | Some signals \<Rightarrow> items signals))"

definition table_shown :: "world \<Rightarrow> bool" where
  "table_shown w = (\<not> isLoading (poll (sched w)) \<and> data (poll (sched w)) \<noteq> None)"

text \<open>A click reaches a handler when the button is in a shown row and is not disabled.\<close>

definition clickable :: "verb \<Rightarrow> signal \<Rightarrow> world \<Rightarrow> bool" where
  "clickable v s w =
     (s \<in> set (rows_shown w) \<and> (v, False) \<in> set (row_buttons (actionLoading w) s))"

fun verb_request :: "verb \<Rightarrow> int \<Rightarrow> string \<times> string" where
  "verb_request Confirm i = (''POST'', ''/api/signals/'' @ String_int i @ ''/confirm'')"
| "verb_request Reject i = (''POST'', ''/api/signals/'' @ String_int i @ ''/reject'')"
| "verb_request Delete i = (''DELETE'', ''/api/signals/'' @ String_int i)"

fun verb_failure :: "verb \<Rightarrow> string" where
  "verb_failure Confirm = ''Failed to confirm signal:''"
| "verb_failure Reject = ''Failed to reject signal:''"
| "verb_failure Delete = ''Failed to delete signal:''"

definition refresh :: "world \<Rightarrow> world" where
  "refresh w = w\<lparr>sched := start_fetch False (sched w)\<rparr>"

text \<open>
  \<open>handleConfirm\<close>, \<open>handleReject\<close> and \<open>handleDelete\<close> up to their \<open>await\<close>.
  \<open>handleDelete\<close> first asks \<open>confirm(...)\<close>, whose answer is \<open>answer\<close>.
\<close>

definition call_begin :: "verb \<Rightarrow> int \<Rightarrow> world \<Rightarrow> world" where
  "call_begin v i w =
     w\<lparr>actionLoading := Some i,
       requests := requests w @ [verb_request v i],
       in_flight := in_flight w @ [Single v i]\<rparr>"

fun handle_begin :: "verb \<Rightarrow> int \<Rightarrow> bool \<Rightarrow> world \<Rightarrow> world" where
  "handle_begin Delete i answer w =
     (let w1 = w\<lparr>dialogs := dialogs w @ [''Are you sure you want to delete this signal?'']\<rparr>
      in if \<not> answer then w1 else call_begin Delete i w1)"
| "handle_begin v i answer w = call_begin v i w"

text \<open>The rest of the three handlers, once the backend call has settled.\<close>

definition handle_settled :: "verb \<Rightarrow> thrown + json \<Rightarrow> world \<Rightarrow> world" where
  "handle_settled v outcome w =
     (let w1 = (case outcome of
                  Inr result \<Rightarrow> refresh w
                | Inl err \<Rightarrow> w\<lparr>console := console w @ [verb_failure v]\<rparr>)
      in w1\<lparr>actionLoading := None\<rparr>)"

text \<open>\<open>handleDeleteAll\<close>, in the same two pieces.\<close>

definition handleDeleteAll_begin :: "bool \<Rightarrow> bool \<Rightarrow> world \<Rightarrow> world" where
  "handleDeleteAll_begin processedOnly answer w =
     (let message = (if processedOnly
                     then ''Are you sure you want to delete all PROCESSED signals?''
                     else ''Are you sure you want to delete ALL signals? This cannot be undone!'');
          w1 = w\<lparr>dialogs := dialogs w @ [message]\<rparr>
      in if \<not> answer then w1
         else w1\<lparr>requests := requests w1
                    @ [(''DELETE'', ''/api/signals?processed_only='' @ String_bool processedOnly)],
                 in_flight := in_flight w1 @ [Bulk processedOnly]\<rparr>)"

definition template_String :: "json option \<Rightarrow> thrown + string" where
  "template_String v = (case v of None \<Rightarrow> Inr ''undefined'' | Some x \<Rightarrow> js_String x)"

definition handleDeleteAll_settled :: "thrown + json \<Rightarrow> world \<Rightarrow> world" where
  "handleDeleteAll_settled outcome w =
     (case outcome of
        Inl err \<Rightarrow> w\<lparr>console := console w @ [''Failed to delete signals:'']\<rparr>
      | Inr result \<Rightarrow>
          (case get_property result ''deleted_count'' of
             Inl err \<Rightarrow> w\<lparr>console := console w @ [''Failed to delete signals:'']\<rparr>
           | Inr deleted_count \<Rightarrow>
               (case template_String deleted_count of
                  Inl err \<Rightarrow> w\<lparr>console := console w @ [''Failed to delete signals:'']\<rparr>
                | Inr count \<Rightarrow>
                    refresh (w\<lparr>alerts := alerts w
                                  @ [''Deleted '' @ count @ '' signals'']\<rparr>))))"

text \<open>
  What can happen to the component: a click on a row's button (with the answer the
  user would give to the dialog of Delete), a click on one of the two bulk buttons, the
  settling of a call in flight, and the events of its polling engine. A click on a
  button that is absent or disabled reaches no handler; a settling is possible only for
  a call in flight.
\<close>

datatype ui_event =
    Click verb signal bool
  | ClickDeleteAll bool bool
  | Settle action "thrown + json"
  | Fetch "signal paginated fetch_event"

fun ui_step :: "ui_event \<Rightarrow> world \<Rightarrow> world option" where
  "ui_step (Click v s answer) w =
     (case signal_id s of
        None \<Rightarrow> Some w
      | Some i \<Rightarrow> if clickable v s w then Some (handle_begin v i answer w) else Some w)"
| "ui_step (ClickDeleteAll processedOnly answer) w =
     (if table_shown w then Some (handleDeleteAll_begin processedOnly answer w) else Some w)"
| "ui_step (Settle (Single v i) outcome) w =
     (if Single v i \<in> set (in_flight w)
      then Some (handle_settled v outcome (w\<lparr>in_flight := remove1 (Single v i) (in_flight w)\<rparr>))
      else None)"
| "ui_step (Settle (Bulk b) outcome) w =
     (if Bulk b \<in> set (in_flight w)
      then Some (handleDeleteAll_settled outcome (w\<lparr>in_flight := remove1 (Bulk b) (in_flight w)\<rparr>))
      else None)"
| "ui_step (Fetch e) w =
     (case step e (sched w) of None \<Rightarrow> None | Some \<sigma> \<Rightarrow> Some (w\<lparr>sched := \<sigma>\<rparr>))"

fun ui_run :: "ui_event list \<Rightarrow> world \<Rightarrow> world option" where
  "ui_run [] w = Some w"
| "ui_run (e # es) w = (case ui_step e w of None \<Rightarrow> None | Some w' \<Rightarrow> ui_run es w')"

text \<open>The single-signal actions on the id \<open>i\<close> that are in flight.\<close>

definition in_flight_on :: "int \<Rightarrow> world \<Rightarrow> action list" where
  "in_flight_on i w = filter (\<lambda>a. case a of Single v j \<Rightarrow> j = i | Bulk b \<Rightarrow> False) (in_flight w)"

definition singles :: "world \<Rightarrow> action list" where
  "singles w = filter (\<lambda>a. case a of Single v j \<Rightarrow> True | Bulk b \<Rightarrow> False) (in_flight w)"

text \<open>
  The state of the action slot while the user acts on the one id \<open>i\<close>: the slot is
  empty and no single-signal action is in flight, or it holds \<open>i\<close> and exactly one
  action, on \<open>i\<close>, is in flight.
\<close>

definition slot_inv :: "int \<Rightarrow> world \<Rightarrow> bool" where
  "slot_inv i w =
     (actionLoading w = None \<and> singles w = []
      \<or> actionLoading w = Some i \<and> (\<exists>v. singles w = [Single v i]))"

text \<open>The id of the row that an event clicks in, if it is a click in a row.\<close>

fun clicked_id :: "ui_event \<Rightarrow> int option" where
  "clicked_id (Click v s answer) = signal_id s"
| "clicked_id _ = None"

text \<open>A loaded page with two signals that await confirmation, and nothing in flight.\<close>

definition signal1 :: signal where
  "signal1 = \<lparr>signal_id = Some 1, status = Some ''pending_confirmation''\<rparr>"

definition signal2 :: signal where
  "signal2 = \<lparr>signal_id = Some 2, status = Some ''pending_confirmation''\<rparr>"

definition signal3 :: signal where
  "signal3 = \<lparr>signal_id = Some 3, status = Some ''executed''\<rparr>"

definition loaded_world :: world where
  "loaded_world =
     \<lparr>sched = \<lparr>poll = \<lparr>data = Some \<lparr>items = [signal1, signal2, signal3], total = 3,
                                     paginated.page = 1, paginated.page_size = 20, pages = 1\<rparr>,
                        error = None, isLoading = False, isRefreshing = False,
                        lastUpdated = Some 0\<rparr>,
               issued = 1, pending = []\<rparr>,
      actionLoading = None, in_flight = [], requests = [], dialogs = [], alerts = [],
      console = []\<rparr>"

section \<open>Page-level aggregate fetches\<close>

text \<open>
  \<open>fetchTrades\<close> of the trades page awaits \<open>Promise.all\<close> of the list call and the
  statistics call inside one \<open>try\<close>: the promise rejects as soon as one of the two
  does, and the \<open>catch\<close> returns the fallback for both. The arguments are how the two
  calls settle.
\<close>

record ('t, 's) trades_data =
  trades :: "'t paginated"
  stats :: "'s option"

definition trades_fallback :: "'t paginated" where
  "trades_fallback = \<lparr>items = [], total = 0, paginated.page = 1, paginated.page_size = 20, pages = 1\<rparr>"

definition fetchTrades :: "thrown + 't paginated \<Rightarrow> thrown + 's \<Rightarrow> ('t, 's) trades_data" where
  "fetchTrades list_settled stats_settled =
     (case (list_settled, stats_settled) of
        (Inr t, Inr st) \<Rightarrow> \<lparr>trades = t, stats = Some st\<rparr>
      | _ \<Rightarrow> \<lparr>trades = trades_fallback, stats = None\<rparr>)"

text \<open>
  \<open>fetchDashboardData\<close> of the dashboard gives each of its five calls a \<open>catch\<close> of
  its own, so \<open>Promise.all\<close> never rejects.
\<close>

record ('a, 'b, 'c, 'd, 'e) dashboard_data =
  stats :: "'a option"
  tradeStats :: "'b option"
  pendingSignals :: "'c list"
  politicians :: "'d list"
  actionStatus :: "'e option"

definition catch_null :: "thrown + 'a \<Rightarrow> 'a option" where
  "catch_null settled = (case settled of Inl err \<Rightarrow> None | Inr v \<Rightarrow> Some v)"

definition catch_empty :: "thrown + 'a list \<Rightarrow> 'a list" where
  "catch_empty settled = (case settled of Inl err \<Rightarrow> [] | Inr v \<Rightarrow> v)"

definition fetchDashboardData ::
  "thrown + 'a \<Rightarrow> thrown + 'b \<Rightarrow> thrown + 'c list \<Rightarrow> thrown + 'd list \<Rightarrow> thrown + 'e
     \<Rightarrow> ('a, 'b, 'c, 'd, 'e) dashboard_data" where
  "fetchDashboardData s1 s2 s3 s4 s5 =
     \<lparr>dashboard_data.stats = catch_null s1, tradeStats = catch_null s2, pendingSignals = catch_empty s3,
      politicians = catch_empty s4, actionStatus = catch_null s5\<rparr>"

section \<open>Properties of the polling engine\<close>

lemma step_data:
  "step e \<sigma> = Some \<sigma>' \<Longrightarrow>
     data (poll \<sigma>') = (case e of Resolved k result now \<Rightarrow> Some result | _ \<Rightarrow> data (poll \<sigma>))"
  by (cases e)
     (auto simp: start_fetch_def fetchData_begin_def fetchData_resolved_def
                 fetchData_rejected_def split: if_splits)

text \<open>
  C1 (as the source behaves). The hook has no sequence numbers and discards nothing:
  after any run of fetch starts and completions, \<open>data\<close> is the result of the
  successful completion delivered last, and the data before the run if none succeeded.
\<close>

theorem usePolling_last_completion_wins:
  "run es \<sigma> = Some \<sigma>' \<Longrightarrow>
     data (poll \<sigma>') = (case last_resolved es of None \<Rightarrow> data (poll \<sigma>) | Some r \<Rightarrow> Some r)"
proof (induction es arbitrary: \<sigma>)
  case Nil
  then show ?case by simp
next
  case (Cons e es)
  from Cons.prems obtain \<sigma>1 where s1: "step e \<sigma> = Some \<sigma>1" and r: "run es \<sigma>1 = Some \<sigma>'"
    by (auto split: option.splits)
  from Cons.IH [OF r] step_data [OF s1] show ?case
    by (cases e) (auto split: option.splits)
qed

theorem usePolling_last_completion_wins_witness:
  "run [Start True, Start False, Resolved 2 ''new'' 10, Resolved 1 ''old'' 20] scheduler_initial
     = Some \<lparr>poll = \<lparr>data = Some ''old'', error = None, isLoading = False,
                     isRefreshing = False, lastUpdated = Some 20\<rparr>,
             issued = 2, pending = []\<rparr>
   \<and> data (poll \<lparr>poll = \<lparr>data = Some ''old'', error = None, isLoading = False,
                     isRefreshing = False, lastUpdated = Some 20\<rparr>,
             issued = 2, pending = []\<rparr>) = Some ''old''"
proof -
  have r: "run [Start True, Start False, Resolved 2 ''new'' 10, Resolved 1 ''old'' 20]
             scheduler_initial
           = Some \<lparr>poll = \<lparr>data = Some ''old'', error = None, isLoading = False,
                     isRefreshing = False, lastUpdated = Some 20\<rparr>,
             issued = 2, pending = []\<rparr>"
    by (simp add: scheduler_initial_def poll_initial_def start_fetch_def fetchData_begin_def
                  fetchData_resolved_def)
  from usePolling_last_completion_wins [OF r] r show ?thesis by simp
qed

text \<open>
  C1 (as stated) fails: the initial fetch (number 1) is still pending when a refresh
  (number 2) is issued; number 2 completes with \<open>''new''\<close>, then number 1 completes with
  \<open>''old''\<close>. The late completion is not discarded: the hook displays \<open>''old''\<close>, while
  the completed fetch with the highest number returned \<open>''new''\<close>.
\<close>

theorem usePolling_stale_overwrite:
  "map_option (\<lambda>\<sigma>. data (poll \<sigma>))
     (run [Start True, Start False, Resolved 2 ''new'' 10, Resolved 1 ''old'' 20]
        scheduler_initial) = Some (Some ''old'')
   \<and> spec_displayed [Start True, Start False, Resolved 2 ''new'' 10, Resolved 1 ''old'' 20]
       = Some ''new''"
  by (simp add: scheduler_initial_def poll_initial_def start_fetch_def fetchData_begin_def
                fetchData_resolved_def spec_displayed_def)

text \<open>
  C2. A fetch whose \<open>fetchFn\<close> rejects leaves \<open>data\<close> and \<open>lastUpdated\<close> as they were,
  stores the failure in \<open>error\<close> (the thrown value itself, or \<open>Error "Failed to fetch"\<close>
  when it is not an \<open>Error\<close> instance) and clears both flags. This holds for the
  completion handler on any state, and for a whole execution of \<open>fetchData\<close>.
\<close>

theorem fetchData_failure_keeps_data:
  "data (fetchData_rejected err s) = data s
   \<and> lastUpdated (fetchData_rejected err s) = lastUpdated s
   \<and> error (fetchData_rejected err s)
       = Some (if instanceof_Error err then err else Error ''Failed to fetch'')
   \<and> \<not> isLoading (fetchData_rejected err s)
   \<and> \<not> isRefreshing (fetchData_rejected err s)
   \<and> data (fetchData isInitial (Inl err) now s) = data s
   \<and> lastUpdated (fetchData isInitial (Inl err) now s) = lastUpdated s
   \<and> error (fetchData isInitial (Inl err) now s)
       = Some (if instanceof_Error err then err else Error ''Failed to fetch'')
   \<and> \<not> isLoading (fetchData isInitial (Inl err) now s)
   \<and> \<not> isRefreshing (fetchData isInitial (Inl err) now s)"
  by (simp add: fetchData_def fetchData_rejected_def fetchData_begin_def)

section \<open>Properties of the request gateway\<close>

lemma request_unparsable_body:
  "\<not> ok r \<Longrightarrow> resp_json r = Inl e \<Longrightarrow>
     request (Inr r) = Inl (ApiError (resp_status r) ''Unknown error'')"
  by (simp add: request_def detail_message_def)

lemma request_detail_message:
  "\<not> ok r \<Longrightarrow> resp_json r = Inr (JObj [(''detail'', JStr m)]) \<Longrightarrow> m \<noteq> [] \<Longrightarrow>
     request (Inr r) = Inl (ApiError (resp_status r) m)"
  by (simp add: request_def detail_message_def)

lemma request_typed_when_message:
  "\<not> ok r \<Longrightarrow> resp_json r = Inr body \<Longrightarrow> get_property body ''detail'' = Inr detail \<Longrightarrow>
     detail_message detail = Inr message \<Longrightarrow>
     request (Inr r) = Inl (ApiError (resp_status r) message)"
  by (simp add: request_def)

lemma request_unprintable_detail:
  "request (Inr \<lparr>resp_status = 500,
                  resp_json = Inr (JObj [(''detail'', JObj [(''toString'', JNum 1)])])\<rparr>)
     = Inl (TypeError ''Cannot convert object to primitive value'')"
  by (simp add: request_def ok_def detail_message_def)

lemma request_network_failure:
  "request (Inl (TypeError m)) = Inl (TypeError m) \<and> status_of (TypeError m) = None"
  by (simp add: request_def)

text \<open>
  C7. On a non-success status the gateway throws an \<open>ApiError\<close> with the status and a
  message (the \<open>detail\<close> of the body, \<open>Unknown error\<close> when the body is no JSON)
  whenever the body has a \<open>detail\<close> to read and the message can be made of it, as the
  lemmas above show, and a network failure passes through with no status. The body
  \<open>null\<close> is a case the code misses: it is JSON, so the \<open>catch\<close> of
  \<open>response.json()\<close> does not run, and reading \<open>detail\<close> of \<open>null\<close> throws a
  \<open>TypeError\<close> that carries neither the status 500 nor a message of the gateway. (A
  \<open>detail\<close> that cannot be converted to a string is another, by
  \<open>request_unprintable_detail\<close>.)
\<close>

theorem request_null_body_untyped:
  "\<not> ok \<lparr>resp_status = 500, resp_json = Inr JNull\<rparr>
   \<and> request (Inr \<lparr>resp_status = 500, resp_json = Inr JNull\<rparr>)
       = Inl (TypeError ''Cannot read properties of null'')
   \<and> status_of (TypeError ''Cannot read properties of null'') = None"
  by (simp add: request_def ok_def)

section \<open>Properties of the platform values\<close>

lemma digit_char: "n < 10 \<Longrightarrow> ''0123456789'' ! n \<in> set ''0123456789''"
  by (rule nth_mem) simp

lemma digits_chars: "set (digits n) \<subseteq> set ''0123456789''"
proof (induction n rule: digits.induct)
  case (1 n)
  show ?case
  proof (cases "n < 10")
    case True
    have "digits n = [''0123456789'' ! n]" using True by (subst digits.simps) simp
    with digit_char [OF True] show ?thesis by simp
  next
    case False
    have d: "digits n = digits (n div 10) @ [''0123456789'' ! (n mod 10)]"
      using False by (subst digits.simps) simp
    have "n mod 10 < 10" by simp
    from digit_char [OF this] "1.IH" [OF False] show ?thesis unfolding d by simp
  qed
qed

lemma digits_nonempty: "digits n \<noteq> []"
  by (subst digits.simps) simp

lemma String_int_chars:
  "CHR ''&'' \<notin> set (String_int t)" "CHR ''='' \<notin> set (String_int t)" "String_int t \<noteq> []"
  using digits_chars [of "nat t"] digits_chars [of "nat (- t)"] digits_nonempty
  by (auto simp: String_int_def)

lemma split_on_notin: "c \<notin> set xs \<Longrightarrow> split_on c xs = [xs]"
  by (induction xs) auto

lemma split_on_append: "c \<notin> set xs \<Longrightarrow> split_on c (xs @ c # ys) = xs # split_on c ys"
  by (induction xs) auto

lemma takeWhile_notin: "c \<notin> set xs \<Longrightarrow> takeWhile (\<lambda>x. x \<noteq> c) xs = xs"
  by (induction xs) auto

lemma dropWhile_notin: "c \<notin> set xs \<Longrightarrow> dropWhile (\<lambda>x. x \<noteq> c) xs = []"
  by (induction xs) auto

section \<open>Properties of signalsApi.list\<close>

lemma map_of_filter_other:
  "k \<noteq> name \<Longrightarrow> map_of (filter (\<lambda>q. fst q \<noteq> name) ps) k = map_of ps k"
  by (induction ps) auto

lemma sp_get_overwrite:
  "name \<in> fst ` set ps \<Longrightarrow>
     sp_get (sp_overwrite name v ps) k = (if k = name then Some v else sp_get ps k)"
proof (induction ps)
  case Nil
  then show ?case by simp
next
  case (Cons p ps)
  show ?case
  proof (cases "fst p = name")
    case True
    then show ?thesis by (cases p) (simp add: sp_get_def map_of_filter_other)
  next
    case False
    with Cons.prems have "name \<in> fst ` set ps" by auto
    from Cons.IH [OF this] False show ?thesis by (cases p) (auto simp: sp_get_def)
  qed
qed

lemma sp_get_set:
  "sp_get (sp_set name v ps) k = (if k = name then Some v else sp_get ps k)"
proof (cases "name \<in> fst ` set ps")
  case True
  then show ?thesis by (simp add: sp_set_def sp_get_overwrite)
next
  case False
  then have "map_of ps name = None" by (simp add: map_of_eq_None_iff)
  with False show ?thesis
    by (auto simp: sp_set_def sp_get_def map_add_def split: option.splits)
qed

lemma sp_get_Nil: "sp_get [] k = None"
  by (simp add: sp_get_def)

lemma list_searchParams_explicit:
  "list_searchParams params =
     (case Option.bind params list_params.page of
        None \<Rightarrow> []
      | Some p \<Rightarrow> if num_truthy p then [(''page'', String_num p)] else [])
   @ (case Option.bind params list_params.page_size of
        None \<Rightarrow> []
      | Some p \<Rightarrow> if num_truthy p then [(''page_size'', String_num p)] else [])
   @ (case Option.bind params processed of
        None \<Rightarrow> []
      | Some b \<Rightarrow> [(''processed'', String_bool b)])"
  by (simp add: list_searchParams_def Let_def sp_set_def split: option.splits)

lemma parse_pair_kv: "CHR ''='' \<notin> set k \<Longrightarrow> parse_pair (k @ CHR ''='' # v) = (k, v)"
  by (simp add: parse_pair_def takeWhile_tail takeWhile_notin dropWhile_append3 dropWhile_notin)

lemma parse_toString:
  "plain ps \<Longrightarrow>
     map parse_pair (filter (\<lambda>s. s \<noteq> []) (split_on (CHR ''&'') (sp_toString ps))) = ps"
proof (induction ps rule: sp_toString.induct)
  case 1
  then show ?case by simp
next
  case (2 k v)
  then have "CHR ''&'' \<notin> set (k @ CHR ''='' # v)" by (simp add: plain_def)
  from split_on_notin [OF this] 2 show ?case
    by (simp add: plain_def parse_pair_kv)
next
  case (3 k v p ps)
  then have amp: "CHR ''&'' \<notin> set (k @ CHR ''='' # v)" and rest: "plain (p # ps)"
    and eq: "CHR ''='' \<notin> set k"
    by (simp_all add: plain_def)
  have "sp_toString ((k, v) # p # ps) = (k @ CHR ''='' # v) @ CHR ''&'' # sp_toString (p # ps)"
    by simp
  with split_on_append [OF amp] "3.IH" [OF rest] eq show ?case
    by (simp add: parse_pair_kv)
qed

lemma String_num_chars:
  "num_truthy p \<Longrightarrow> CHR ''&'' \<notin> set (String_num p)"
  by (cases p) (simp_all add: String_int_chars)

lemma plain_list_searchParams: "plain (list_searchParams params)"
  by (auto simp: list_searchParams_explicit plain_def String_num_chars String_bool_def
        split: option.splits)

lemma sp_toString_empty: "sp_toString ps = [] \<longleftrightarrow> ps = []"
  by (induction ps rule: sp_toString.induct) simp_all

lemma useSearchParams_signalsApi_list:
  "useSearchParams (signalsApi_list params) = list_searchParams params"
proof (cases "list_searchParams params = []")
  case True
  then show ?thesis
    by (simp add: signalsApi_list_def useSearchParams_def query_of_url_def)
next
  case False
  then have "sp_toString (list_searchParams params) \<noteq> []" by (simp add: sp_toString_empty)
  then have "query_of_url (signalsApi_list params) = sp_toString (list_searchParams params)"
    by (simp add: signalsApi_list_def query_of_url_def)
  with parse_toString [OF plain_list_searchParams, of params] show ?thesis
    by (simp add: useSearchParams_def)
qed

text \<open>
  C10. The endpoint that \<open>signalsApi.list\<close> requests carries in its query exactly the
  parameters of \<open>list_searchParams\<close>: \<open>processed\<close> exactly when the parameter is
  defined, with the value \<open>false\<close> as well as \<open>true\<close>; \<open>page\<close> and \<open>page_size\<close>
  exactly when they are defined and truthy, so not when they are absent, 0 or \<open>NaN\<close>.
  A call with page 0 (or page size 0) requests the same endpoint as the call without
  the page (or page size); page 0 of the unprocessed signals goes out as
  \<open>/api/signals?page_size=20&processed=false\<close>.
\<close>

theorem signalsApi_list_query:
  "sp_get (list_searchParams params) ''processed''
      = map_option String_bool (Option.bind params processed)
   \<and> sp_get (list_searchParams params) ''page''
      = (case Option.bind params list_params.page of
           None \<Rightarrow> None
         | Some p \<Rightarrow> if num_truthy p then Some (String_num p) else None)
   \<and> sp_get (list_searchParams params) ''page_size''
      = (case Option.bind params list_params.page_size of
           None \<Rightarrow> None
         | Some p \<Rightarrow> if num_truthy p then Some (String_num p) else None)
   \<and> signalsApi_list
        (Some \<lparr>page = Some (Num 0), page_size = Some (Num 20), processed = Some False\<rparr>)
      = ''/api/signals?page_size=20&processed=false''
   \<and> useSearchParams (signalsApi_list params) = list_searchParams params
   \<and> sp_get (useSearchParams (signalsApi_list params)) ''processed''
      = map_option String_bool (Option.bind params processed)
   \<and> sp_get (useSearchParams (signalsApi_list params)) ''page''
      = (case Option.bind params list_params.page of
           None \<Rightarrow> None
         | Some p \<Rightarrow> if num_truthy p then Some (String_num p) else None)
   \<and> sp_get (useSearchParams (signalsApi_list params)) ''page_size''
      = (case Option.bind params list_params.page_size of
           None \<Rightarrow> None
         | Some p \<Rightarrow> if num_truthy p then Some (String_num p) else None)
   \<and> signalsApi_list (Some \<lparr>page = Some (Num 0), page_size = ps, processed = pr\<rparr>)
      = signalsApi_list (Some \<lparr>page = None, page_size = ps, processed = pr\<rparr>)
   \<and> signalsApi_list (Some \<lparr>page = pg, page_size = Some (Num 0), processed = pr\<rparr>)
      = signalsApi_list (Some \<lparr>page = pg, page_size = None, processed = pr\<rparr>)"
proof -
  have general:
    "sp_get (list_searchParams params) ''processed''
        = map_option String_bool (Option.bind params processed)"
    "sp_get (list_searchParams params) ''page''
        = (case Option.bind params list_params.page of
             None \<Rightarrow> None
           | Some p \<Rightarrow> if num_truthy p then Some (String_num p) else None)"
    "sp_get (list_searchParams params) ''page_size''
        = (case Option.bind params list_params.page_size of
             None \<Rightarrow> None
           | Some p \<Rightarrow> if num_truthy p then Some (String_num p) else None)"
    by (simp_all add: list_searchParams_def Let_def sp_get_set sp_get_Nil split: option.splits)
  have page0:
    "signalsApi_list
        (Some \<lparr>page = Some (Num 0), page_size = Some (Num 20), processed = Some False\<rparr>)
      = ''/api/signals?page_size=20&processed=false''"
    by (simp add: signalsApi_list_def list_searchParams_def sp_set_def String_int_def
                  String_bool_def digits.simps)
  have query: "useSearchParams (signalsApi_list params) = list_searchParams params"
    by (rule useSearchParams_signalsApi_list)
  have zero:
    "signalsApi_list (Some \<lparr>page = Some (Num 0), page_size = ps, processed = pr\<rparr>)
      = signalsApi_list (Some \<lparr>page = None, page_size = ps, processed = pr\<rparr>)"
    "signalsApi_list (Some \<lparr>page = pg, page_size = Some (Num 0), processed = pr\<rparr>)
      = signalsApi_list (Some \<lparr>page = pg, page_size = None, processed = pr\<rparr>)"
    by (simp_all add: signalsApi_list_def list_searchParams_explicit)
  from general page0 query zero show ?thesis by simp
qed

section \<open>Properties of the aggregate fetches\<close>

text \<open>
  C9 (as the source behaves). When the list call of the trades page throws, the page
  gets the fallback list \<open>{items: [], total: 0, page: 1, page_size: 20, pages: 1}\<close> and
  no statistics, and nothing propagates: \<open>fetchTrades\<close> always returns. The same whole
  fallback is returned when only the statistics call throws. On the dashboard each of
  the five results depends on its own call alone.
\<close>

theorem aggregate_fetch_fallbacks:
  "fetchTrades (Inl e) stats_settled = \<lparr>trades = trades_fallback, trades_data.stats = None\<rparr>
   \<and> fetchTrades list_settled (Inl e) = \<lparr>trades = trades_fallback, trades_data.stats = None\<rparr>
   \<and> (trades_fallback :: 't paginated)
       = \<lparr>items = [], total = 0, paginated.page = 1, paginated.page_size = 20, pages = 1\<rparr>
   \<and> dashboard_data.stats (fetchDashboardData s1 s2 s3 s4 s5) = catch_null s1
   \<and> tradeStats (fetchDashboardData s1 s2 s3 s4 s5) = catch_null s2
   \<and> pendingSignals (fetchDashboardData s1 s2 s3 s4 s5) = catch_empty s3
   \<and> politicians (fetchDashboardData s1 s2 s3 s4 s5) = catch_empty s4
   \<and> actionStatus (fetchDashboardData s1 s2 s3 s4 s5) = catch_null s5"
  by (simp add: fetchTrades_def fetchDashboardData_def trades_fallback_def split: sum.splits)

text \<open>
  C9 (as stated) fails on the trades page: the list call returns one trade and the
  statistics call throws; the page shows the empty fallback list, not the trade. The
  two calls do not degrade independently.
\<close>

theorem fetchTrades_stats_failure_blanks_list:
  "trades (fetchTrades
             (Inr \<lparr>items = [''AAPL''], total = 1, paginated.page = 1,
                   paginated.page_size = 20, pages = 1\<rparr>)
             (Inl (ApiError 500 ''Request failed'') :: thrown + unit))
     = \<lparr>items = [], total = 0, paginated.page = 1, paginated.page_size = 20, pages = 1\<rparr>
   \<and> trades (fetchTrades
             (Inr \<lparr>items = [''AAPL''], total = 1, paginated.page = 1,
                   paginated.page_size = 20, pages = 1\<rparr>)
             (Inl (ApiError 500 ''Request failed'') :: thrown + unit))
     \<noteq> \<lparr>items = [''AAPL''], total = 1, paginated.page = 1,
         paginated.page_size = 20, pages = 1\<rparr>"
  by (simp add: fetchTrades_def trades_fallback_def)

section \<open>Properties of the signals page\<close>

subsection \<open>Filter and page\<close>

lemma useSearchParams_push_page:
  "useSearchParams (push_page target filter_now)
     = (''page'', String_int target)
       # (case filter_now of None \<Rightarrow> [] | Some b \<Rightarrow> [(''processed'', String_bool b)])"
proof (cases filter_now)
  case None
  then show ?thesis
    by (simp add: push_page_def sp_set_def useSearchParams_def query_of_url_def parse_pair_def
          split_on_notin String_int_chars takeWhile_notin dropWhile_notin)
next
  case (Some b)
  then show ?thesis
    by (simp add: push_page_def sp_set_def useSearchParams_def query_of_url_def parse_pair_def
          split_on_append String_int_chars takeWhile_notin dropWhile_notin String_bool_def)
qed

lemma useSearchParams_setFilter: "useSearchParams (setFilter None) = []"
  "useSearchParams (setFilter (Some ''false'')) = [(''processed'', ''false'')]"
  "useSearchParams (setFilter (Some ''true'')) = [(''processed'', ''true'')]"
  by (simp_all add: setFilter_def sp_set_def useSearchParams_def query_of_url_def parse_pair_def)

text \<open>
  C8. Each of the three filter buttons pushes a URL without a \<open>page\<close> parameter, so
  the next render is on page 1 of the new filter, whatever the page before; Previous
  and Next push the filter of the current render with the new page, so the filter is
  kept. From \<open>/signals?page=3&processed=false\<close>, the button Processed leads to a fetch
  of \<open>/api/signals?page=1&page_size=20&processed=true\<close>.
\<close>

theorem setFilter_resets_page:
  "view_page parseInt (useSearchParams (setFilter None)) = Num 1
   \<and> view_page parseInt (useSearchParams (setFilter (Some ''false''))) = Num 1
   \<and> view_page parseInt (useSearchParams (setFilter (Some ''true''))) = Num 1
   \<and> view_processed (useSearchParams (setFilter None)) = None
   \<and> view_processed (useSearchParams (setFilter (Some ''false''))) = Some False
   \<and> view_processed (useSearchParams (setFilter (Some ''true''))) = Some True
   \<and> view_processed (useSearchParams (nav_click b signals (view_processed searchParams)))
       = view_processed searchParams
   \<and> sp_get (useSearchParams ''/signals?page=3&processed=false'') ''page'' = Some ''3''
   \<and> view_processed (useSearchParams ''/signals?page=3&processed=false'') = Some False
   \<and> fetchSignals parseInt (useSearchParams (setFilter (Some ''true'')))
       = ''/api/signals?page=1&page_size=20&processed=true''"
proof -
  have pages: "view_page parseInt (useSearchParams (setFilter None)) = Num 1"
    "view_page parseInt (useSearchParams (setFilter (Some ''false''))) = Num 1"
    "view_page parseInt (useSearchParams (setFilter (Some ''true''))) = Num 1"
    by (simp_all add: useSearchParams_setFilter view_page_def sp_get_def)
  have filters: "view_processed (useSearchParams (setFilter None)) = None"
    "view_processed (useSearchParams (setFilter (Some ''false''))) = Some False"
    "view_processed (useSearchParams (setFilter (Some ''true''))) = Some True"
    by (simp_all add: useSearchParams_setFilter view_processed_def sp_get_def)
  have keep: "view_processed (useSearchParams (push_page target filter_now)) = filter_now"
    for target filter_now
    by (cases filter_now)
       (auto simp: useSearchParams_push_page view_processed_def sp_get_def String_bool_def)
  have nav: "view_processed (useSearchParams (nav_click b signals (view_processed searchParams)))
       = view_processed searchParams"
    by (cases b) (simp_all add: keep)
  have before: "sp_get (useSearchParams ''/signals?page=3&processed=false'') ''page'' = Some ''3''"
    "view_processed (useSearchParams ''/signals?page=3&processed=false'') = Some False"
    by (simp_all add: useSearchParams_def query_of_url_def parse_pair_def view_processed_def sp_get_def)
  have after: "fetchSignals parseInt (useSearchParams (setFilter (Some ''true'')))
       = ''/api/signals?page=1&page_size=20&processed=true''"
    by (simp add: fetchSignals_def pages filters signalsApi_list_def list_searchParams_def
          sp_set_def String_int_def String_bool_def digits.simps)
  from pages filters nav before after show ?thesis by simp
qed

subsection \<open>Single-signal actions\<close>

lemma clickable_slot:
  "clickable v s w \<Longrightarrow> signal_id s = Some i \<Longrightarrow> actionLoading w \<noteq> Some i"
  by (auto simp: clickable_def row_buttons_def Let_def split: if_splits)

lemma slot_inv_click:
  assumes "slot_inv i w" and "signal_id s = Some i" and "clickable v s w"
  shows "slot_inv i (handle_begin v i answer w)"
proof -
  from clickable_slot [OF assms(3) assms(2)] assms(1)
  have free: "actionLoading w = None" "singles w = []"
    by (auto simp: slot_inv_def)
  then show ?thesis
    by (cases v) (auto simp: slot_inv_def singles_def call_begin_def Let_def)
qed

lemma singles_remove1_single:
  "singles (w\<lparr>in_flight := remove1 (Single v j) (in_flight w)\<rparr>) = remove1 (Single v j) (singles w)"
  by (simp add: singles_def filter_remove1)

lemma singles_remove1_bulk:
  "singles (w\<lparr>in_flight := remove1 (Bulk b) (in_flight w)\<rparr>) = singles w"
proof -
  have "Bulk b \<notin> set (singles w)" by (simp add: singles_def)
  then show ?thesis by (simp add: singles_def filter_remove1 remove1_idem)
qed

lemma handle_settled_slot:
  "actionLoading (handle_settled v outcome w) = None"
  "singles (handle_settled v outcome w) = singles w"
  by (cases outcome; simp add: handle_settled_def refresh_def singles_def)+

lemma handleDeleteAll_settled_slot:
  "actionLoading (handleDeleteAll_settled outcome w) = actionLoading w"
  "singles (handleDeleteAll_settled outcome w) = singles w"
  by (auto simp: handleDeleteAll_settled_def refresh_def singles_def split: sum.splits)

lemma handleDeleteAll_begin_slot:
  "actionLoading (handleDeleteAll_begin p answer w) = actionLoading w"
  "singles (handleDeleteAll_begin p answer w) = singles w"
  by (auto simp: handleDeleteAll_begin_def singles_def Let_def)

lemma slot_inv_step:
  assumes "ui_step e w = Some w'" and "slot_inv i w"
    and "clicked_id e = None \<or> clicked_id e = Some i"
  shows "slot_inv i w'"
proof (cases e)
  case (Click v s answer)
  with assms show ?thesis
    by (auto simp: slot_inv_click split: option.splits if_splits)
next
  case (ClickDeleteAll p answer)
  with assms show ?thesis
    by (auto simp: slot_inv_def handleDeleteAll_begin_slot split: if_splits)
next
  case (Settle a outcome)
  show ?thesis
  proof (cases a)
    case (Single v j)
    with Settle assms(1) have inf: "Single v j \<in> set (in_flight w)"
      and w': "w' = handle_settled v outcome (w\<lparr>in_flight := remove1 (Single v j) (in_flight w)\<rparr>)"
      by (auto split: if_splits)
    from inf have "Single v j \<in> set (singles w)" by (simp add: singles_def)
    with assms(2) have "singles w = [Single v j]" by (auto simp: slot_inv_def)
    then have "singles w' = []"
      by (simp add: w' handle_settled_slot singles_remove1_single)
    then show ?thesis by (simp add: slot_inv_def w' handle_settled_slot)
  next
    case (Bulk b)
    with Settle assms(1)
    have w': "w' = handleDeleteAll_settled outcome (w\<lparr>in_flight := remove1 (Bulk b) (in_flight w)\<rparr>)"
      by (auto split: if_splits)
    with assms(2) show ?thesis
      by (simp add: slot_inv_def handleDeleteAll_settled_slot singles_remove1_bulk)
  qed
next
  case (Fetch ev)
  with assms show ?thesis
    by (auto simp: slot_inv_def singles_def split: option.splits)
qed

lemma slot_inv_run:
  "ui_run es w = Some w' \<Longrightarrow> slot_inv i w \<Longrightarrow>
     (\<forall>e\<in>set es. clicked_id e = None \<or> clicked_id e = Some i) \<Longrightarrow> slot_inv i w'"
proof (induction es arbitrary: w)
  case Nil
  then show ?case by simp
next
  case (Cons e es)
  from Cons.prems(1) obtain w1 where s: "ui_step e w = Some w1" and r: "ui_run es w1 = Some w'"
    by (auto split: option.splits)
  from Cons.prems(3) have "clicked_id e = None \<or> clicked_id e = Some i" by simp
  from slot_inv_step [OF s Cons.prems(2) this] have "slot_inv i w1" .
  from Cons.IH [OF r this] Cons.prems(3) show ?case by simp
qed

lemma in_flight_on_singles:
  "in_flight_on i w = filter (\<lambda>a. case a of Single v j \<Rightarrow> j = i | Bulk b \<Rightarrow> False) (singles w)"
  by (auto simp: in_flight_on_def singles_def intro!: filter_cong split: action.splits)

lemma slot_inv_bound: "slot_inv i w \<Longrightarrow> length (in_flight_on j w) \<le> 1"
  by (auto simp: slot_inv_def in_flight_on_singles)

text \<open>
  C3 (as the source behaves). The component has one action slot for the whole table,
  not a lock per id. While the user acts on a single id, at most one action on it is in
  flight. The buttons of a row are disabled exactly while the slot holds the id of the
  row, so an action in flight on another id does not block the row. Starting an action
  writes its id into the slot and the settling of any action empties the slot.
\<close>

theorem actionLoading_one_slot:
  "(ui_run es w = Some w' \<and> actionLoading w = None \<and> singles w = []
      \<and> (\<forall>e\<in>set es. clicked_id e = None \<or> clicked_id e = Some i)
    \<longrightarrow> length (in_flight_on i w') \<le> 1)
   \<and> map snd (row_buttons al s)
       = replicate (length (row_buttons al s)) (signal_id s \<noteq> None \<and> al = signal_id s)
   \<and> (signal_id s \<noteq> Some j \<longrightarrow> row_buttons (Some j) s = row_buttons None s)
   \<and> actionLoading (call_begin v i w) = Some i
   \<and> actionLoading (handle_settled v outcome w) = None"
proof -
  have run: "ui_run es w = Some w' \<and> actionLoading w = None \<and> singles w = []
      \<and> (\<forall>e\<in>set es. clicked_id e = None \<or> clicked_id e = Some i)
    \<longrightarrow> length (in_flight_on i w') \<le> 1"
  proof
    assume a: "ui_run es w = Some w' \<and> actionLoading w = None \<and> singles w = []
      \<and> (\<forall>e\<in>set es. clicked_id e = None \<or> clicked_id e = Some i)"
    then have "slot_inv i w" by (simp add: slot_inv_def)
    with a have "slot_inv i w'" using slot_inv_run by blast
    then show "length (in_flight_on i w') \<le> 1" by (rule slot_inv_bound)
  qed
  have buttons: "map snd (row_buttons al s)
       = replicate (length (row_buttons al s)) (signal_id s \<noteq> None \<and> al = signal_id s)"
    by (simp add: row_buttons_def Let_def)
  have other: "signal_id s \<noteq> Some j \<longrightarrow> row_buttons (Some j) s = row_buttons None s"
    by (auto simp: row_buttons_def Let_def)
  have slot: "actionLoading (call_begin v i w) = Some i"
    "actionLoading (handle_settled v outcome w) = None"
    by (simp_all add: call_begin_def handle_settled_slot)
  from run buttons other slot show ?thesis by blast
qed

theorem actionLoading_one_slot_witness:
  "ui_run [Click Confirm signal1 True, Click Delete signal1 True,
           Settle (Single Confirm 1) (Inr JNull), Click Delete signal1 True] loaded_world
     \<noteq> None
   \<and> actionLoading loaded_world = None
   \<and> singles loaded_world = []
   \<and> signal_id signal2 \<noteq> Some 1
   \<and> length (in_flight_on 1
        (the (ui_run [Click Confirm signal1 True, Click Delete signal1 True,
                      Settle (Single Confirm 1) (Inr JNull), Click Delete signal1 True]
                loaded_world))) \<le> 1
   \<and> row_buttons (Some 1) signal2 = row_buttons None signal2"
proof -
  let ?es = "[Click Confirm signal1 True, Click Delete signal1 True,
              Settle (Single Confirm 1) (Inr JNull), Click Delete signal1 True]"
  have "ui_run ?es loaded_world \<noteq> None"
    by (simp add: loaded_world_def signal1_def signal2_def signal3_def clickable_def
          rows_shown_def row_buttons_def id_truthy_def call_begin_def handle_settled_def
          refresh_def String_int_def digits.simps)
  then obtain w' where r: "ui_run ?es loaded_world = Some w'" by auto
  have free: "actionLoading loaded_world = None" "singles loaded_world = []"
    by (simp_all add: loaded_world_def singles_def)
  have clicks: "\<forall>e\<in>set ?es. clicked_id e = None \<or> clicked_id e = Some 1"
    by (simp add: signal1_def)
  have other: "signal_id signal2 \<noteq> Some 1" by (simp add: signal2_def)
  from actionLoading_one_slot [of ?es loaded_world w' 1 _ signal2 1] r free clicks other
  show ?thesis by simp
qed

text \<open>
  C3 (as stated) fails. On a loaded page with the signals 1 and 2 awaiting
  confirmation, the user confirms 1, confirms 2 and deletes 1: the second click moves
  the slot to 2 and enables the buttons of row 1 again, so the confirm and the delete of
  signal 1 are both sent and both in flight. And when the confirm of signal 1 settles
  while that of signal 2 is in flight, the slot is emptied and row 2 is enabled.
\<close>

theorem actionLoading_two_actions_same_id:
  "map_option (\<lambda>w. (in_flight_on 1 w, requests w, actionLoading w))
     (ui_run [Click Confirm signal1 True, Click Confirm signal2 True,
              Click Delete signal1 True] loaded_world)
   = Some ([Single Confirm 1, Single Delete 1],
           [(''POST'', ''/api/signals/1/confirm''), (''POST'', ''/api/signals/2/confirm''),
            (''DELETE'', ''/api/signals/1'')],
           Some 1)
   \<and> map_option (\<lambda>w. (in_flight_on 2 w, actionLoading w))
     (ui_run [Click Confirm signal1 True, Click Confirm signal2 True,
              Settle (Single Confirm 1) (Inr JNull)] loaded_world)
   = Some ([Single Confirm 2], None)"
  by (simp add: loaded_world_def signal1_def signal2_def signal3_def clickable_def
        rows_shown_def row_buttons_def id_truthy_def call_begin_def in_flight_on_def
        String_int_def digits.simps handle_settled_def refresh_def)

text \<open>
  C4 (as the source behaves). When the backend call of a confirm, reject or delete
  settles, the slot is emptied whatever the outcome, and neither the start of the
  action nor its settling changes \<open>data\<close>. On success \<open>refresh\<close> starts a fetch
  (\<open>fetchData(false)\<close>); on failure the handler writes to the console and starts none.
\<close>

theorem handle_settled_release_and_refresh:
  "actionLoading (handle_settled v outcome w) = None
   \<and> data (poll (sched (handle_settled v outcome w))) = data (poll (sched w))
   \<and> data (poll (sched (handle_begin v i answer w))) = data (poll (sched w))
   \<and> sched (handle_settled v (Inr result) w) = start_fetch False (sched w)
   \<and> issued (sched (handle_settled v (Inr result) w)) = Suc (issued (sched w))
   \<and> isRefreshing (poll (sched (handle_settled v (Inr result) w)))
   \<and> sched (handle_settled v (Inl err) w) = sched w
   \<and> console (handle_settled v (Inl err) w) = console w @ [verb_failure v]"
  by (cases v; cases outcome)
     (simp_all add: handle_settled_def refresh_def start_fetch_def fetchData_begin_def
        call_begin_def Let_def)

text \<open>
  C4 (as stated) fails: the confirm of signal 1 is rejected by the backend with status
  500. The slot is emptied, but no fetch is started: the count of fetches issued is
  still 1, none is pending and \<open>isRefreshing\<close> is false.
\<close>

theorem handleConfirm_failure_no_refresh:
  "map_option (\<lambda>w. (actionLoading w, in_flight w, issued (sched w), pending (sched w),
                     isRefreshing (poll (sched w))))
     (ui_run [Click Confirm signal1 True,
              Settle (Single Confirm 1) (Inl (ApiError 500 ''Request failed''))] loaded_world)
    = Some (None, [], 1, [], False)
   \<and> issued (sched loaded_world) = 1"
  by (simp add: loaded_world_def signal1_def signal2_def signal3_def clickable_def
        rows_shown_def row_buttons_def id_truthy_def call_begin_def handle_settled_def
        String_int_def digits.simps)

text \<open>
  C5. A row whose status is not \<open>pending_confirmation\<close> has no Confirm and no Reject
  button, so a click for either reaches no handler: the component is unchanged, and
  with it the list of calls made.
\<close>

theorem confirm_reject_need_pending_confirmation:
  "status s \<noteq> Some ''pending_confirmation'' \<Longrightarrow> v \<noteq> Delete \<Longrightarrow>
     (\<forall>d. (v, d) \<notin> set (row_buttons al s)) \<and> \<not> clickable v s w
     \<and> ui_step (Click v s answer) w = Some w"
  by (cases v) (auto simp: row_buttons_def clickable_def Let_def split: option.splits)

theorem confirm_reject_need_pending_confirmation_witness:
  "status signal3 \<noteq> Some ''pending_confirmation'' \<and> Confirm \<noteq> Delete
   \<and> signal3 \<in> set (rows_shown loaded_world)
   \<and> ui_step (Click Confirm signal3 True) loaded_world = Some loaded_world
   \<and> requests loaded_world = []"
proof -
  have a: "status signal3 \<noteq> Some ''pending_confirmation''" by (simp add: signal3_def)
  have b: "Confirm \<noteq> Delete" by simp
  have c: "signal3 \<in> set (rows_shown loaded_world)"
    by (simp add: rows_shown_def loaded_world_def)
  from confirm_reject_need_pending_confirmation [OF a b, of _ loaded_world True] a b c
  show ?thesis by (simp add: loaded_world_def)
qed

subsection \<open>The bulk action\<close>

text \<open>
  C6. \<open>handleDeleteAll\<close> shows its \<open>confirm\<close> dialog first. On the answer no it makes
  no call; on yes it sends the one DELETE. When the call returns an object whose
  \<open>deleted_count\<close> is the number \<open>n\<close>, the handler alerts \<open>Deleted n signals\<close> and
  then starts a refresh.
\<close>

theorem handleDeleteAll_gate_and_report:
  "requests (handleDeleteAll_begin processedOnly False w) = requests w
   \<and> in_flight (handleDeleteAll_begin processedOnly False w) = in_flight w
   \<and> map_option requests (ui_step (ClickDeleteAll processedOnly False) w) = Some (requests w)
   \<and> requests (handleDeleteAll_begin processedOnly True w)
       = requests w @ [(''DELETE'', ''/api/signals?processed_only='' @ String_bool processedOnly)]
   \<and> (get_property result ''deleted_count'' = Inr (Some (JNum n)) \<longrightarrow>
        handleDeleteAll_settled (Inr result) w
          = refresh (w\<lparr>alerts := alerts w @ [''Deleted '' @ String_int n @ '' signals'']\<rparr>)
        \<and> alerts (handleDeleteAll_settled (Inr result) w)
          = alerts w @ [''Deleted '' @ String_int n @ '' signals'']
        \<and> sched (handleDeleteAll_settled (Inr result) w) = start_fetch False (sched w))"
  by (auto simp: handleDeleteAll_begin_def handleDeleteAll_settled_def template_String_def
        refresh_def Let_def)

theorem handleDeleteAll_gate_and_report_witness:
  "get_property (JObj [(''status'', JStr ''success''), (''deleted_count'', JNum 5)])
       ''deleted_count'' = Inr (Some (JNum 5))
   \<and> alerts (handleDeleteAll_settled
               (Inr (JObj [(''status'', JStr ''success''), (''deleted_count'', JNum 5)]))
               loaded_world) = [''Deleted 5 signals'']
   \<and> issued (sched (handleDeleteAll_settled
               (Inr (JObj [(''status'', JStr ''success''), (''deleted_count'', JNum 5)]))
               loaded_world)) = 2"
proof -
  let ?result = "JObj [(''status'', JStr ''success''), (''deleted_count'', JNum 5)]"
  have g: "get_property ?result ''deleted_count'' = Inr (Some (JNum 5))" by simp
  from handleDeleteAll_gate_and_report [of True loaded_world ?result 5] g
  have settled:
    "alerts (handleDeleteAll_settled (Inr ?result) loaded_world)
       = alerts loaded_world @ [''Deleted '' @ String_int 5 @ '' signals'']"
    "sched (handleDeleteAll_settled (Inr ?result) loaded_world)
       = start_fetch False (sched loaded_world)"
    by blast+
  have five: "String_int 5 = ''5''" by (simp add: String_int_def digits.simps)
  from g settled five show ?thesis
    by (simp add: loaded_world_def start_fetch_def)
qed

end
